theory Spec2Isabelle
  imports Main "HOL-Library.Word"
begin

section \<open>The RPC front end of ipamd (ipamd/rpc_handler.go)\<close>

text \<open>
  The file under verification holds the two gRPC handlers \<^verbatim>\<open>AddNetwork\<close> and
  \<^verbatim>\<open>DelNetwork\<close>, the bring-up function \<^verbatim>\<open>RunRPCHandler\<close> and the goroutine
  \<^verbatim>\<open>shutdownListener\<close>. Everything the handlers call (the data store, the AWS client,
  the network client, the Prometheus counters) lives in other packages; those calls
  are parameters of the model. Calls to the logger write to the log sink only and are
  left out.
\<close>

subsection \<open>Errors\<close>

text \<open>
  A Go \<^verbatim>\<open>error\<close> value. \<^verbatim>\<open>datastore.ErrUnknownPod\<close> is the one sentinel the handlers
  compare against; every other error is identified by its message. \<^verbatim>\<open>errors.Wrap\<close>
  keeps the cause and adds a message. A nil error is \<open>None\<close> of \<open>error option\<close>.
\<close>

datatype error = ErrUnknownPod | ErrOther string | Wrap error string

text \<open>A run-time panic of the Go program.\<close>

datatype panic = NilPointerDereference

subsection \<open>Messages\<close>

text \<open>
  \<^verbatim>\<open>k8sapi.K8SPodInfo\<close>: the handlers set these three fields; a field left out of a
  composite literal has Go's zero value, the empty string.
\<close>

record K8SPodInfo =
  Name :: string
  Namespace :: string
  Container :: string

record AddNetworkRequest =
  K8S_POD_NAME :: string
  K8S_POD_NAMESPACE :: string
  K8S_POD_INFRA_CONTAINER_ID :: string
  Netns :: string
  IfName :: string

record AddNetworkReply =
  Success :: bool
  IPv4Addr :: string
  IPv4Subnet :: string
  DeviceNumber :: "32 word"
  UseExternalSNAT :: bool
  VPCcidrs :: "string list"

record DelNetworkRequest =
  K8S_POD_NAME :: string
  K8S_POD_NAMESPACE :: string
  K8S_POD_INFRA_CONTAINER_ID :: string
  IPv4Addr :: string
  Reason :: string

record DelNetworkReply =
  Success :: bool
  IPv4Addr :: string
  DeviceNumber :: "32 word"

subsection \<open>Collaborators and state\<close>

text \<open>
  The methods the handlers call on \<^verbatim>\<open>s.ipamContext.dataStore\<close>,
  \<^verbatim>\<open>s.ipamContext.awsClient\<close> and \<^verbatim>\<open>s.ipamContext.networkClient\<close>. Each may read and
  change the state \<open>'w\<close> behind those three objects. The data store returns an address,
  a device number (a Go \<^verbatim>\<open>int\<close>, 64 bits on the platforms the daemon runs on) and an
  error. \<^verbatim>\<open>GetVPCIPv4CIDRs\<close> returns \<^verbatim>\<open>[]*string\<close>: an entry is a pointer, \<open>None\<close> when nil.
\<close>

type_synonym store_result = "string \<times> 64 word \<times> error option"

record 'w collaborators =
  AssignPodIPv4Address :: "K8SPodInfo \<Rightarrow> 'w \<Rightarrow> store_result \<times> 'w"
  UnassignPodIPv4Address :: "K8SPodInfo \<Rightarrow> 'w \<Rightarrow> store_result \<times> 'w"
  GetVPCIPv4CIDRs :: "'w \<Rightarrow> string option list \<times> 'w"
  UseExternalSNAT :: "'w \<Rightarrow> bool \<times> 'w"
  GetExcludeSNATCIDRs :: "'w \<Rightarrow> string list \<times> 'w"

text \<open>
  The mutable state the file touches: the state \<open>world\<close> behind the collaborators, the
  flag \<open>terminating\<close> of the \<^verbatim>\<open>IPAMContext\<close>, and the two package-level counters.

  Modelled from the spec: the counters \<^verbatim>\<open>addIPCnt\<close> and \<^verbatim>\<open>delIPCnt\<close> are declared in
  ipamd.go, which is not among the sources at hand. The spec gives two counters, one
  unlabelled and incremented per Attach call, one labelled by \<^verbatim>\<open>reason\<close> and incremented
  per Detach call. A counter is modelled by the number of \<^verbatim>\<open>Inc\<close> calls it has received.
\<close>

record 'w ipamd =
  world :: 'w
  terminating :: bool
  addIPCnt :: nat
  delIPCnt :: "string \<Rightarrow> nat"

definition Inc :: "nat \<Rightarrow> nat" where
  "Inc n = n + 1"

definition IncWith :: "(string \<Rightarrow> nat) \<Rightarrow> string \<Rightarrow> (string \<Rightarrow> nat)" where
  "IncWith cv label = cv(label := Inc (cv label))"

subsection \<open>AddNetwork\<close>

text \<open>
  The first loop of \<^verbatim>\<open>AddNetwork\<close>: append \<^verbatim>\<open>*cidr\<close> for every pointer of the slice,
  in order. Dereferencing a nil pointer panics.
\<close>

fun appendVPCcidrs :: "string list \<Rightarrow> string option list \<Rightarrow> panic + string list" where
  "appendVPCcidrs pbVPCcidrs [] = Inr pbVPCcidrs"
| "appendVPCcidrs pbVPCcidrs (None # cidrs) = Inl NilPointerDereference"
| "appendVPCcidrs pbVPCcidrs (Some cidr # cidrs) = appendVPCcidrs (pbVPCcidrs @ [cidr]) cidrs"

text \<open>The second loop: append every exclusion range, in order.\<close>

fun appendExcludeSNATCIDRs :: "string list \<Rightarrow> string list \<Rightarrow> string list" where
  "appendExcludeSNATCIDRs pbVPCcidrs [] = pbVPCcidrs"
| "appendExcludeSNATCIDRs pbVPCcidrs (cidr # cidrs) =
     appendExcludeSNATCIDRs (pbVPCcidrs @ [cidr]) cidrs"

text \<open>
  The handler returns \<^verbatim>\<open>(*pb.AddNetworkReply, error)\<close>: \<open>Inr\<close> the reply when the error
  is nil, \<open>Inl\<close> the error otherwise. A panic returns nothing. \<^verbatim>\<open>int32(deviceNumber)\<close>
  keeps the low 32 bits.
\<close>

definition AddNetwork ::
  "'w collaborators \<Rightarrow> AddNetworkRequest \<Rightarrow> 'w ipamd
    \<Rightarrow> panic + ((error + AddNetworkReply) \<times> 'w ipamd)" where
  "AddNetwork c req s =
    (let ((addr, deviceNumber, err), w1) =
           AssignPodIPv4Address c
             \<lparr>Name = AddNetworkRequest.K8S_POD_NAME req,
              Namespace = AddNetworkRequest.K8S_POD_NAMESPACE req,
              Container = AddNetworkRequest.K8S_POD_INFRA_CONTAINER_ID req\<rparr> (world s);
         (cidrs, w2) = GetVPCIPv4CIDRs c w1
     in case appendVPCcidrs [] cidrs of
          Inl p \<Rightarrow> Inl p
        | Inr pbVPCcidrs1 \<Rightarrow>
           (let (useExternalSNAT, w3) = collaborators.UseExternalSNAT c w2;
                (pbVPCcidrs, w4) =
                  (if \<not> useExternalSNAT
                   then (let (excl, w') = GetExcludeSNATCIDRs c w3
                         in (appendExcludeSNATCIDRs pbVPCcidrs1 excl, w'))
                   else (pbVPCcidrs1, w3));
                resp = \<lparr>AddNetworkReply.Success = (err = None),
                        IPv4Addr = addr,
                        IPv4Subnet = '''',
                        DeviceNumber = scast deviceNumber,
                        UseExternalSNAT = useExternalSNAT,
                        VPCcidrs = pbVPCcidrs\<rparr>
            in Inr (Inr resp, s\<lparr>world := w4, addIPCnt := Inc (addIPCnt s)\<rparr>)))"

subsection \<open>DelNetwork\<close>

definition DelNetwork ::
  "'w collaborators \<Rightarrow> DelNetworkRequest \<Rightarrow> 'w ipamd
    \<Rightarrow> (error + DelNetworkReply) \<times> 'w ipamd" where
  "DelNetwork c req s =
    (let s1 = s\<lparr>delIPCnt := IncWith (delIPCnt s) (Reason req)\<rparr>;
         ((ip, deviceNumber, err), w1) =
           UnassignPodIPv4Address c
             \<lparr>Name = DelNetworkRequest.K8S_POD_NAME req,
              Namespace = DelNetworkRequest.K8S_POD_NAMESPACE req,
              Container = DelNetworkRequest.K8S_POD_INFRA_CONTAINER_ID req\<rparr> (world s1);
         ((ip, deviceNumber, err), w2) =
           (if err \<noteq> None \<and> err = Some ErrUnknownPod
            then UnassignPodIPv4Address c
                   \<lparr>Name = DelNetworkRequest.K8S_POD_NAME req,
                    Namespace = DelNetworkRequest.K8S_POD_NAMESPACE req,
                    Container = ''''\<rparr> w1
            else ((ip, deviceNumber, err), w1));
         success = (if err \<noteq> None \<and> err \<noteq> Some ErrUnknownPod then False else True)
     in (Inr \<lparr>DelNetworkReply.Success = success,
              IPv4Addr = ip,
              DeviceNumber = scast deviceNumber\<rparr>,
         s1\<lparr>world := w2\<rparr>))"

subsection \<open>RunRPCHandler\<close>

definition ipamdgRPCaddress :: string where
  "ipamdgRPCaddress = ''127.0.0.1:50051''"

text \<open>
  The services registered on the gRPC server, and the server as \<^verbatim>\<open>RunRPCHandler\<close>
  builds it: the registered services in order, and the one status set on the health
  server.
\<close>

datatype service = CNIBackendServer | HealthServer | ReflectionServer

datatype serving_status = SERVING

record grpc_Server =
  registered :: "service list"
  servingStatus :: "(string \<times> serving_status) list"

text \<open>
  The transport the function runs on: \<^verbatim>\<open>net.Listen\<close> returns a listener or an error;
  \<^verbatim>\<open>s.Serve(lis)\<close> either never returns (\<open>None\<close>) or returns an error value, nil or not.
\<close>

record 'lis transport =
  Listen :: "string \<Rightarrow> string \<Rightarrow> error + 'lis"
  Serve :: "grpc_Server \<Rightarrow> 'lis \<Rightarrow> error option option"

text \<open>
  What a call of \<^verbatim>\<open>RunRPCHandler\<close> does: the value it returns (\<open>None\<close> when it never
  returns), the server it built, and whether it started the \<^verbatim>\<open>shutdownListener\<close>
  goroutine.
\<close>

record run_result =
  returned :: "error option option"
  server :: "grpc_Server option"
  listenerStarted :: bool

definition RunRPCHandler :: "'lis transport \<Rightarrow> run_result" where
  "RunRPCHandler t =
    (case Listen t ''tcp'' ipamdgRPCaddress of
       Inl err \<Rightarrow>
         \<lparr>returned = Some (Some (Wrap err ''ipamd: failed to listen to gRPC port'')),
          server = None, listenerStarted = False\<rparr>
     | Inr lis \<Rightarrow>
        (let s = \<lparr>registered = [], servingStatus = []\<rparr>;
             s = s\<lparr>registered := registered s @ [CNIBackendServer]\<rparr>;
             hs = [(''grpc.health.v1.aws-node'', SERVING)];
             s = s\<lparr>registered := registered s @ [HealthServer], servingStatus := hs\<rparr>;
             s = s\<lparr>registered := registered s @ [ReflectionServer]\<rparr>
         in case Serve t s lis of
              None \<Rightarrow> \<lparr>returned = None, server = Some s, listenerStarted = True\<rparr>
            | Some (Some err) \<Rightarrow>
                \<lparr>returned = Some (Some (Wrap err ''ipamd: failed to start server on gPRC port'')),
                 server = Some s, listenerStarted = True\<rparr>
            | Some None \<Rightarrow>
                \<lparr>returned = Some None, server = Some s, listenerStarted = True\<rparr>))"

subsection \<open>shutdownListener\<close>

text \<open>
  Modelled from the spec: \<^verbatim>\<open>setTerminating\<close> is a method of \<^verbatim>\<open>IPAMContext\<close> defined in
  ipamd.go, which is not among the sources at hand. The spec says that on the transition
  the Termination State is set to true and no other component state is mutated.
\<close>

definition setTerminating :: "'w ipamd \<Rightarrow> 'w ipamd" where
  "setTerminating s = s\<lparr>terminating := True\<rparr>"

datatype signal = SIGINT | SIGTERM | SIGOTHER nat

text \<open>
  The goroutine is a sequence of five statements; \<open>listener\<close> is the statement it will
  execute next, \<open>Returned\<close> once the function has returned.
\<close>

datatype listener = AtMakeChan | AtNotifySIGINT | AtNotifySIGTERM | AtReceive
  | AtSetTerminating | Returned

text \<open>
  The process around the goroutine: the context \<open>ctx\<close> (the receiver \<^verbatim>\<open>c\<close>), the gRPC
  server \<open>grpcServer\<close> handed over as the argument \<^verbatim>\<open>s\<close> (with whatever calls it has in
  flight), the position \<open>pc\<close> of the goroutine, the content \<open>sig\<close> of its buffered channel
  (capacity \<open>sigCap\<close>), the signals \<open>notified\<close> that \<^verbatim>\<open>signal.Notify\<close> relays to that
  channel, and whether a handler's panic has ended the process.
\<close>

record ('w, 'srv) process =
  ctx :: "'w ipamd"
  grpcServer :: 'srv
  pc :: listener
  sig :: "signal list"
  notified :: "signal set"
  exited :: bool

definition sigCap :: nat where
  "sigCap = 1"

text \<open>One statement of \<^verbatim>\<open>shutdownListener\<close>. The receive blocks while the channel is empty.\<close>

definition shutdownListener :: "('w, 'srv) process \<Rightarrow> ('w, 'srv) process" where
  "shutdownListener p =
    (case pc p of
       AtMakeChan \<Rightarrow> p\<lparr>pc := AtNotifySIGINT, sig := []\<rparr>
     | AtNotifySIGINT \<Rightarrow> p\<lparr>pc := AtNotifySIGTERM, notified := insert SIGINT (notified p)\<rparr>
     | AtNotifySIGTERM \<Rightarrow> p\<lparr>pc := AtReceive, notified := insert SIGTERM (notified p)\<rparr>
     | AtReceive \<Rightarrow>
         (case sig p of [] \<Rightarrow> p | sg # rest \<Rightarrow> p\<lparr>pc := AtSetTerminating, sig := rest\<rparr>)
     | AtSetTerminating \<Rightarrow> p\<lparr>ctx := setTerminating (ctx p), pc := Returned\<rparr>
     | Returned \<Rightarrow> p)"

text \<open>
  What can happen in the process: the operating system delivers a signal, the scheduler
  runs the goroutine for one statement, or the server handles one call. The signal
  package never blocks on a send: a notified signal goes into the channel if there is
  room and is dropped otherwise. A signal that is not notified is left to the Go
  runtime's default action, which is no part of this file: the state stays as it is
  (a real run in which that action ends the process is a prefix of a run here).
\<close>

datatype event = Deliver signal | Listener | Attach AddNetworkRequest | Detach DelNetworkRequest

definition step :: "'w collaborators \<Rightarrow> event \<Rightarrow> ('w, 'srv) process \<Rightarrow> ('w, 'srv) process" where
  "step c e p =
    (if exited p then p
     else case e of
       Deliver sg \<Rightarrow>
         (if sg \<in> notified p \<and> length (sig p) < sigCap then p\<lparr>sig := sig p @ [sg]\<rparr> else p)
     | Listener \<Rightarrow> shutdownListener p
     | Attach req \<Rightarrow>
         (case AddNetwork c req (ctx p) of
            Inl pa \<Rightarrow> p\<lparr>exited := True\<rparr>
          | Inr (reply, s') \<Rightarrow> p\<lparr>ctx := s'\<rparr>)
     | Detach req \<Rightarrow> p\<lparr>ctx := snd (DelNetwork c req (ctx p))\<rparr>)"

fun run :: "'w collaborators \<Rightarrow> event list \<Rightarrow> ('w, 'srv) process \<Rightarrow> ('w, 'srv) process" where
  "run c [] p = p"
| "run c (e # es) p = run c es (step c e p)"


text \<open>The process right after \<^verbatim>\<open>go c.shutdownListener(s)\<close>.\<close>

definition spawn :: "'w ipamd \<Rightarrow> 'srv \<Rightarrow> ('w, 'srv) process" where
  "spawn s srv =
    \<lparr>ctx = s, grpcServer = srv, pc = AtMakeChan, sig = [], notified = {}, exited = False\<rparr>"




subsection \<open>Observing the calls a handler makes\<close>

text \<open>
  To count calls, the collaborators are wrapped so that every call also appends an
  entry to a log kept beside their state. The wrapped collaborators answer as the
  original ones do.
\<close>

datatype call =
  CallAssign K8SPodInfo
  | CallUnassign K8SPodInfo
  | CallGetVPCIPv4CIDRs
  | CallUseExternalSNAT
  | CallGetExcludeSNATCIDRs

definition recording :: "'w collaborators \<Rightarrow> ('w \<times> call list) collaborators" where
  "recording c =
    \<lparr>AssignPodIPv4Address = (\<lambda>k (w, log).
        (fst (AssignPodIPv4Address c k w),
         (snd (AssignPodIPv4Address c k w), log @ [CallAssign k]))),
     UnassignPodIPv4Address = (\<lambda>k (w, log).
        (fst (UnassignPodIPv4Address c k w),
         (snd (UnassignPodIPv4Address c k w), log @ [CallUnassign k]))),
     GetVPCIPv4CIDRs = (\<lambda>(w, log).
        (fst (GetVPCIPv4CIDRs c w),
         (snd (GetVPCIPv4CIDRs c w), log @ [CallGetVPCIPv4CIDRs]))),
     UseExternalSNAT = (\<lambda>(w, log).
        (fst (collaborators.UseExternalSNAT c w),
         (snd (collaborators.UseExternalSNAT c w), log @ [CallUseExternalSNAT]))),
     GetExcludeSNATCIDRs = (\<lambda>(w, log).
        (fst (GetExcludeSNATCIDRs c w),
         (snd (GetExcludeSNATCIDRs c w), log @ [CallGetExcludeSNATCIDRs])))\<rparr>"

subsection \<open>A test double for concrete runs\<close>

text \<open>
  A small stand-in for the collaborators: the store is a list of assignments, assigning
  finds an existing assignment or fails for lack of addresses, unassigning removes the
  assignment or reports an unknown pod; the range provider and the SNAT policy answer
  with fixed values.
\<close>

type_synonym assignments = "(K8SPodInfo \<times> string \<times> 64 word) list"

definition fakeAssign :: "K8SPodInfo \<Rightarrow> assignments \<Rightarrow> store_result \<times> assignments" where
  "fakeAssign k w =
    (case map_of w k of
       Some (ip, dev) \<Rightarrow> ((ip, dev, None), w)
     | None \<Rightarrow> (('''', 0, Some (ErrOther ''no available IP addresses'')), w))"

definition fakeUnassign :: "K8SPodInfo \<Rightarrow> assignments \<Rightarrow> store_result \<times> assignments" where
  "fakeUnassign k w =
    (case map_of w k of
       Some (ip, dev) \<Rightarrow> ((ip, dev, None), filter (\<lambda>a. fst a \<noteq> k) w)
     | None \<Rightarrow> (('''', 0, Some ErrUnknownPod), w))"

definition fake :: "string option list \<Rightarrow> bool \<Rightarrow> string list \<Rightarrow> assignments collaborators" where
  "fake base ext excl =
    \<lparr>AssignPodIPv4Address = fakeAssign,
     UnassignPodIPv4Address = fakeUnassign,
     GetVPCIPv4CIDRs = (\<lambda>w. (base, w)),
     UseExternalSNAT = (\<lambda>w. (ext, w)),
     GetExcludeSNATCIDRs = (\<lambda>w. (excl, w))\<rparr>"

definition fresh :: "'w \<Rightarrow> 'w ipamd" where
  "fresh w = \<lparr>world = w, terminating = False, addIPCnt = 0, delIPCnt = (\<lambda>label. 0)\<rparr>"

text \<open>
  A state whose collaborators start with an empty log, and the log of a state.
\<close>

definition observed :: "'w ipamd \<Rightarrow> ('w \<times> call list) ipamd" where
  "observed s =
    \<lparr>world = (world s, []), terminating = terminating s,
     addIPCnt = addIPCnt s, delIPCnt = delIPCnt s\<rparr>"

definition calls :: "('w \<times> call list) ipamd \<Rightarrow> call list" where
  "calls s = snd (world s)"

subsection \<open>Notions used in the proofs about the goroutine\<close>




section \<open>The handlers\<close>

subsection \<open>What the loops and the handlers compute\<close>

lemma appendVPCcidrs_Inr:
  "None \<notin> set cidrs \<Longrightarrow> appendVPCcidrs acc cidrs = Inr (acc @ map the cidrs)"
  by (induction acc cidrs rule: appendVPCcidrs.induct) auto

lemma appendVPCcidrs_Inl:
  "None \<in> set cidrs \<Longrightarrow> appendVPCcidrs acc cidrs = Inl NilPointerDereference"
  by (induction acc cidrs rule: appendVPCcidrs.induct) auto

lemma appendExcludeSNATCIDRs_eq: "appendExcludeSNATCIDRs acc cidrs = acc @ cidrs"
  by (induction acc cidrs rule: appendExcludeSNATCIDRs.induct) auto

lemma AddNetwork_returns:
  assumes "AssignPodIPv4Address c
             \<lparr>Name = AddNetworkRequest.K8S_POD_NAME req,
              Namespace = AddNetworkRequest.K8S_POD_NAMESPACE req,
              Container = AddNetworkRequest.K8S_POD_INFRA_CONTAINER_ID req\<rparr> (world s)
           = ((addr, dev, err), w1)"
    and "GetVPCIPv4CIDRs c w1 = (base, w2)"
    and "None \<notin> set base"
    and "collaborators.UseExternalSNAT c w2 = (ext, w3)"
    and "GetExcludeSNATCIDRs c w3 = (excl, w4)"
  shows "AddNetwork c req s =
    Inr (Inr \<lparr>AddNetworkReply.Success = (err = None), IPv4Addr = addr, IPv4Subnet = '''',
              DeviceNumber = scast dev, UseExternalSNAT = ext,
              VPCcidrs = map the base @ (if ext then [] else excl)\<rparr>,
         s\<lparr>world := (if ext then w3 else w4), addIPCnt := addIPCnt s + 1\<rparr>)"
  using assms
  by (simp add: AddNetwork_def appendVPCcidrs_Inr appendExcludeSNATCIDRs_eq Inc_def)

lemma AddNetwork_panics:
  assumes "AssignPodIPv4Address c
             \<lparr>Name = AddNetworkRequest.K8S_POD_NAME req,
              Namespace = AddNetworkRequest.K8S_POD_NAMESPACE req,
              Container = AddNetworkRequest.K8S_POD_INFRA_CONTAINER_ID req\<rparr> (world s)
           = (r, w1)"
    and "GetVPCIPv4CIDRs c w1 = (base, w2)"
    and "None \<in> set base"
  shows "AddNetwork c req s = Inl NilPointerDereference"
  using assms
  by (simp add: AddNetwork_def appendVPCcidrs_Inl split: prod.splits)

lemma DelNetwork_returns:
  assumes "UnassignPodIPv4Address c
             \<lparr>Name = DelNetworkRequest.K8S_POD_NAME req,
              Namespace = DelNetworkRequest.K8S_POD_NAMESPACE req,
              Container = DelNetworkRequest.K8S_POD_INFRA_CONTAINER_ID req\<rparr> (world s)
           = ((ip1, dev1, err1), w1)"
    and "UnassignPodIPv4Address c
             \<lparr>Name = DelNetworkRequest.K8S_POD_NAME req,
              Namespace = DelNetworkRequest.K8S_POD_NAMESPACE req,
              Container = ''''\<rparr> w1
           = ((ip2, dev2, err2), w2)"
  shows "DelNetwork c req s =
    (if err1 = Some ErrUnknownPod
     then (Inr \<lparr>DelNetworkReply.Success = (err2 = None \<or> err2 = Some ErrUnknownPod),
                IPv4Addr = ip2, DeviceNumber = scast dev2\<rparr>,
           s\<lparr>world := w2, delIPCnt := (delIPCnt s)(Reason req := delIPCnt s (Reason req) + 1)\<rparr>)
     else (Inr \<lparr>DelNetworkReply.Success = (err1 = None),
                IPv4Addr = ip1, DeviceNumber = scast dev1\<rparr>,
           s\<lparr>world := w1, delIPCnt := (delIPCnt s)(Reason req := delIPCnt s (Reason req) + 1)\<rparr>))"
  using assms
  by (auto simp add: DelNetwork_def IncWith_def Inc_def)

lemma recording_simps:
  "AssignPodIPv4Address (recording c) k (w, log) =
     (fst (AssignPodIPv4Address c k w), (snd (AssignPodIPv4Address c k w), log @ [CallAssign k]))"
  "UnassignPodIPv4Address (recording c) k (w, log) =
     (fst (UnassignPodIPv4Address c k w), (snd (UnassignPodIPv4Address c k w), log @ [CallUnassign k]))"
  "GetVPCIPv4CIDRs (recording c) (w, log) =
     (fst (GetVPCIPv4CIDRs c w), (snd (GetVPCIPv4CIDRs c w), log @ [CallGetVPCIPv4CIDRs]))"
  "collaborators.UseExternalSNAT (recording c) (w, log) =
     (fst (collaborators.UseExternalSNAT c w), (snd (collaborators.UseExternalSNAT c w), log @ [CallUseExternalSNAT]))"
  "GetExcludeSNATCIDRs (recording c) (w, log) =
     (fst (GetExcludeSNATCIDRs c w), (snd (GetExcludeSNATCIDRs c w), log @ [CallGetExcludeSNATCIDRs]))"
  by (simp_all add: recording_def)

subsection \<open>Detach\<close>

text \<open>
  Claim C1. \<^verbatim>\<open>DelNetwork\<close> first calls the store's unassign with the identity of
  three fields; it calls unassign once more, with the container left empty, exactly when
  the first call returned \<^verbatim>\<open>ErrUnknownPod\<close>; success and every other error cause no
  second call, so a call of \<^verbatim>\<open>DelNetwork\<close> makes at most two calls of unassign. The calls
  are read off the log of the recording collaborators, which answer as the plain ones.
\<close>

theorem DelNetwork_unassign_calls:
  fixes c :: "'w collaborators"
  assumes "UnassignPodIPv4Address c \<lparr>Name = name, Namespace = ns, Container = cid\<rparr> (world s)
           = ((ip1, dev1, err1), w1)"
  shows "calls (snd (DelNetwork (recording c)
            \<lparr>DelNetworkRequest.K8S_POD_NAME = name, K8S_POD_NAMESPACE = ns,
             K8S_POD_INFRA_CONTAINER_ID = cid, IPv4Addr = ip, Reason = reason\<rparr> (observed s)))
         = (if err1 = Some ErrUnknownPod
            then [CallUnassign \<lparr>Name = name, Namespace = ns, Container = cid\<rparr>,
                  CallUnassign \<lparr>Name = name, Namespace = ns, Container = ''''\<rparr>]
            else [CallUnassign \<lparr>Name = name, Namespace = ns, Container = cid\<rparr>])
       \<and> length (calls (snd (DelNetwork (recording c)
            \<lparr>DelNetworkRequest.K8S_POD_NAME = name, K8S_POD_NAMESPACE = ns,
             K8S_POD_INFRA_CONTAINER_ID = cid, IPv4Addr = ip, Reason = reason\<rparr> (observed s)))) \<le> 2
       \<and> fst (DelNetwork (recording c)
            \<lparr>DelNetworkRequest.K8S_POD_NAME = name, K8S_POD_NAMESPACE = ns,
             K8S_POD_INFRA_CONTAINER_ID = cid, IPv4Addr = ip, Reason = reason\<rparr> (observed s))
         = fst (DelNetwork c
            \<lparr>DelNetworkRequest.K8S_POD_NAME = name, K8S_POD_NAMESPACE = ns,
             K8S_POD_INFRA_CONTAINER_ID = cid, IPv4Addr = ip, Reason = reason\<rparr> s)"
  using assms
  by (auto simp add: DelNetwork_def recording_simps observed_def calls_def split: prod.splits)

text \<open>A run after a restart: the store knows the pod by name and namespace only.\<close>

theorem DelNetwork_unassign_calls_witness:
  "UnassignPodIPv4Address (fake [] False [])
     \<lparr>Name = ''pod-a'', Namespace = ''ns1'', Container = ''c1''\<rparr>
     (world (fresh [(\<lparr>Name = ''pod-a'', Namespace = ''ns1'', Container = ''''\<rparr>, ''10.0.1.5'', 1)]))
     = (('''', 0, Some ErrUnknownPod),
        [(\<lparr>Name = ''pod-a'', Namespace = ''ns1'', Container = ''''\<rparr>, ''10.0.1.5'', 1)])
   \<and> calls (snd (DelNetwork (recording (fake [] False []))
            \<lparr>DelNetworkRequest.K8S_POD_NAME = ''pod-a'', K8S_POD_NAMESPACE = ''ns1'',
             K8S_POD_INFRA_CONTAINER_ID = ''c1'', IPv4Addr = ''10.0.1.5'', Reason = ''PodDeleted''\<rparr>
            (observed (fresh [(\<lparr>Name = ''pod-a'', Namespace = ''ns1'', Container = ''''\<rparr>, ''10.0.1.5'', 1)]))))
     = [CallUnassign \<lparr>Name = ''pod-a'', Namespace = ''ns1'', Container = ''c1''\<rparr>,
        CallUnassign \<lparr>Name = ''pod-a'', Namespace = ''ns1'', Container = ''''\<rparr>]"
proof -
  have h: "UnassignPodIPv4Address (fake [] False [])
     \<lparr>Name = ''pod-a'', Namespace = ''ns1'', Container = ''c1''\<rparr>
     (world (fresh [(\<lparr>Name = ''pod-a'', Namespace = ''ns1'', Container = ''''\<rparr>, ''10.0.1.5'', 1)]))
     = (('''', 0, Some ErrUnknownPod),
        [(\<lparr>Name = ''pod-a'', Namespace = ''ns1'', Container = ''''\<rparr>, ''10.0.1.5'', 1)])"
    by (simp add: fake_def fakeUnassign_def fresh_def)
  show ?thesis
    using h DelNetwork_unassign_calls [OF h, where ip = "''10.0.1.5''" and reason = "''PodDeleted''"] by simp
qed

text \<open>
  Claim C2. The reply of \<^verbatim>\<open>DelNetwork\<close> has \<open>Success\<close> true unless the last call of
  unassign (the second when it ran, the first otherwise) returned an error other than
  \<^verbatim>\<open>ErrUnknownPod\<close>; when both calls return \<^verbatim>\<open>ErrUnknownPod\<close>, as for a pod that was
  never attached, \<open>Success\<close> is true.
\<close>

theorem DelNetwork_success:
  fixes c :: "'w collaborators"
  assumes "UnassignPodIPv4Address c \<lparr>Name = name, Namespace = ns, Container = cid\<rparr> (world s)
           = ((ip1, dev1, err1), w1)"
    and "UnassignPodIPv4Address c \<lparr>Name = name, Namespace = ns, Container = ''''\<rparr> w1
           = ((ip2, dev2, err2), w2)"
  shows "\<exists>reply s'.
          DelNetwork c
            \<lparr>DelNetworkRequest.K8S_POD_NAME = name, K8S_POD_NAMESPACE = ns,
             K8S_POD_INFRA_CONTAINER_ID = cid, IPv4Addr = ip, Reason = reason\<rparr> s
          = (Inr reply, s')
        \<and> DelNetworkReply.Success reply
          = (let final = (if err1 = Some ErrUnknownPod then err2 else err1)
             in final = None \<or> final = Some ErrUnknownPod)
        \<and> (err1 = Some ErrUnknownPod \<and> err2 = Some ErrUnknownPod
             \<longrightarrow> DelNetworkReply.Success reply)"
  using DelNetwork_returns [of c "\<lparr>DelNetworkRequest.K8S_POD_NAME = name, K8S_POD_NAMESPACE = ns,
             K8S_POD_INFRA_CONTAINER_ID = cid, IPv4Addr = ip, Reason = reason\<rparr>" s ip1 dev1 err1 w1 ip2 dev2 err2 w2] assms
  by (auto simp add: Let_def)

text \<open>A detach for a pod the store has never seen.\<close>

theorem DelNetwork_success_witness:
  "UnassignPodIPv4Address (fake [] False [])
     \<lparr>Name = ''pod-a'', Namespace = ''ns1'', Container = ''c1''\<rparr> (world (fresh []))
     = (('''', 0, Some ErrUnknownPod), [])
   \<and> UnassignPodIPv4Address (fake [] False [])
     \<lparr>Name = ''pod-a'', Namespace = ''ns1'', Container = ''''\<rparr> []
     = (('''', 0, Some ErrUnknownPod), [])
   \<and> (\<exists>reply s'.
         DelNetwork (fake [] False [])
            \<lparr>DelNetworkRequest.K8S_POD_NAME = ''pod-a'', K8S_POD_NAMESPACE = ''ns1'',
             K8S_POD_INFRA_CONTAINER_ID = ''c1'', IPv4Addr = ''10.0.1.5'', Reason = ''PodDeleted''\<rparr>
            (fresh [])
         = (Inr reply, s') \<and> DelNetworkReply.Success reply)"
proof -
  have h1: "UnassignPodIPv4Address (fake [] False [])
     \<lparr>Name = ''pod-a'', Namespace = ''ns1'', Container = ''c1''\<rparr> (world (fresh []))
     = (('''', 0, Some ErrUnknownPod), [])"
    by (simp add: fake_def fakeUnassign_def fresh_def)
  have h2: "UnassignPodIPv4Address (fake [] False [])
     \<lparr>Name = ''pod-a'', Namespace = ''ns1'', Container = ''''\<rparr> []
     = (('''', 0, Some ErrUnknownPod), [])"
    by (simp add: fake_def fakeUnassign_def)
  show ?thesis
    using h1 h2 DelNetwork_success [OF h1 h2, where ip = "''10.0.1.5''" and reason = "''PodDeleted''"]
    by auto
qed

subsection \<open>Attach\<close>

text \<open>
  The theorems on \<^verbatim>\<open>AddNetwork\<close> name what each collaborator returns in the order the
  handler calls them, and suppose that the slice of base ranges holds no nil pointer;
  with a nil pointer in it the handler panics (lemma \<open>AddNetwork_panics\<close>).
\<close>

text \<open>
  Claim C3. The sequence \<open>VPCcidrs\<close> of the reply of \<^verbatim>\<open>AddNetwork\<close> starts with the base
  ranges in the order the provider returns them; when SNAT is not external, the
  exclusion ranges follow after all base ranges, in the provider's order; when SNAT is
  external, no exclusion range is in the sequence.
\<close>

theorem AddNetwork_networkRanges:
  fixes c :: "'w collaborators"
  assumes "AssignPodIPv4Address c \<lparr>Name = name, Namespace = ns, Container = cid\<rparr> (world s)
           = ((addr, dev, err), w1)"
    and "GetVPCIPv4CIDRs c w1 = (base, w2)"
    and "None \<notin> set base"
    and "collaborators.UseExternalSNAT c w2 = (ext, w3)"
    and "GetExcludeSNATCIDRs c w3 = (excl, w4)"
  shows "\<exists>reply s'.
          AddNetwork c
            \<lparr>AddNetworkRequest.K8S_POD_NAME = name, K8S_POD_NAMESPACE = ns,
             K8S_POD_INFRA_CONTAINER_ID = cid, Netns = netns, IfName = ifname\<rparr> s
          = Inr (Inr reply, s')
        \<and> VPCcidrs reply = map the base @ (if ext then [] else excl)
        \<and> take (length base) (VPCcidrs reply) = map the base
        \<and> drop (length base) (VPCcidrs reply) = (if ext then [] else excl)"
  using AddNetwork_returns [of c "\<lparr>AddNetworkRequest.K8S_POD_NAME = name, K8S_POD_NAMESPACE = ns,
             K8S_POD_INFRA_CONTAINER_ID = cid, Netns = netns, IfName = ifname\<rparr>" s addr dev err w1 base w2 ext w3 excl w4] assms
  by simp

text \<open>Two base ranges and one exclusion range, SNAT not external.\<close>

theorem AddNetwork_networkRanges_witness:
  "AssignPodIPv4Address (fake [Some ''10.0.0.0/16'', Some ''10.1.0.0/16''] False [''192.168.0.0/16''])
     \<lparr>Name = ''pod-a'', Namespace = ''ns1'', Container = ''c1''\<rparr> (world (fresh []))
     = (('''', 0, Some (ErrOther ''no available IP addresses'')), [])
   \<and> None \<notin> set [Some ''10.0.0.0/16'', Some ''10.1.0.0/16'']
   \<and> (\<exists>reply s'.
         AddNetwork (fake [Some ''10.0.0.0/16'', Some ''10.1.0.0/16''] False [''192.168.0.0/16''])
           \<lparr>AddNetworkRequest.K8S_POD_NAME = ''pod-a'', K8S_POD_NAMESPACE = ''ns1'',
            K8S_POD_INFRA_CONTAINER_ID = ''c1'', Netns = ''/proc/42/ns/net'', IfName = ''eth0''\<rparr>
           (fresh [])
         = Inr (Inr reply, s')
       \<and> VPCcidrs reply = [''10.0.0.0/16'', ''10.1.0.0/16'', ''192.168.0.0/16''])"
proof -
  let ?c = "fake [Some ''10.0.0.0/16'', Some ''10.1.0.0/16''] False [''192.168.0.0/16'']"
  have h1: "AssignPodIPv4Address ?c
     \<lparr>Name = ''pod-a'', Namespace = ''ns1'', Container = ''c1''\<rparr> (world (fresh []))
     = (('''', 0, Some (ErrOther ''no available IP addresses'')), [])"
    by (simp add: fake_def fakeAssign_def fresh_def)
  have h2: "GetVPCIPv4CIDRs ?c [] = ([Some ''10.0.0.0/16'', Some ''10.1.0.0/16''], [])"
    by (simp add: fake_def)
  have h3: "None \<notin> set [Some ''10.0.0.0/16'', Some ''10.1.0.0/16'']"
    by simp
  have h4: "collaborators.UseExternalSNAT ?c [] = (False, [])"
    by (simp add: fake_def)
  have h5: "GetExcludeSNATCIDRs ?c [] = ([''192.168.0.0/16''], [])"
    by (simp add: fake_def)
  show ?thesis
    using h1 h3 AddNetwork_networkRanges [OF h1 h2 h3 h4 h5,
        where netns = "''/proc/42/ns/net''" and ifname = "''eth0''"]
    by auto
qed

text \<open>
  Claim C4. Whatever the store's assign returns, \<^verbatim>\<open>AddNetwork\<close> returns a reply and a nil
  error; \<open>Success\<close> says whether assign returned no error, and the reply carries the
  address, the device number (converted to 32 bits, which keeps every value that fits),
  the external-SNAT flag and the sequence of ranges.
\<close>

theorem AddNetwork_reply:
  fixes c :: "'w collaborators"
  assumes "AssignPodIPv4Address c \<lparr>Name = name, Namespace = ns, Container = cid\<rparr> (world s)
           = ((addr, dev, err), w1)"
    and "GetVPCIPv4CIDRs c w1 = (base, w2)"
    and "None \<notin> set base"
    and "collaborators.UseExternalSNAT c w2 = (ext, w3)"
    and "GetExcludeSNATCIDRs c w3 = (excl, w4)"
  shows "\<exists>reply s'.
          AddNetwork c
            \<lparr>AddNetworkRequest.K8S_POD_NAME = name, K8S_POD_NAMESPACE = ns,
             K8S_POD_INFRA_CONTAINER_ID = cid, Netns = netns, IfName = ifname\<rparr> s
          = Inr (Inr reply, s')
        \<and> AddNetworkReply.Success reply = (err = None)
        \<and> AddNetworkReply.IPv4Addr reply = addr
        \<and> AddNetworkReply.DeviceNumber reply = scast dev
        \<and> (- (2 ^ 31) \<le> sint dev \<and> sint dev < 2 ^ 31
             \<longrightarrow> sint (AddNetworkReply.DeviceNumber reply) = sint dev)
        \<and> AddNetworkReply.UseExternalSNAT reply = ext
        \<and> VPCcidrs reply = map the base @ (if ext then [] else excl)"
proof -
  have "sint (scast dev :: 32 word) = signed_take_bit 31 (sint dev)"
    by transfer simp
  then have "- (2 ^ 31) \<le> sint dev \<and> sint dev < 2 ^ 31
      \<longrightarrow> sint (scast dev :: 32 word) = sint dev"
    by (simp add: signed_take_bit_int_eq_self)
  then show ?thesis
    using AddNetwork_returns [of c "\<lparr>AddNetworkRequest.K8S_POD_NAME = name, K8S_POD_NAMESPACE = ns,
             K8S_POD_INFRA_CONTAINER_ID = cid, Netns = netns, IfName = ifname\<rparr>" s addr dev err w1 base w2 ext w3 excl w4] assms
    by simp
qed

text \<open>A failed assignment still gives a reply.\<close>

theorem AddNetwork_reply_witness:
  "AssignPodIPv4Address (fake [Some ''10.0.0.0/16''] True [''192.168.0.0/16''])
     \<lparr>Name = ''pod-a'', Namespace = ''ns1'', Container = ''c1''\<rparr> (world (fresh []))
     = (('''', 0, Some (ErrOther ''no available IP addresses'')), [])
   \<and> None \<notin> set [Some ''10.0.0.0/16'']
   \<and> - (2 ^ 31) \<le> sint (0 :: 64 word) \<and> sint (0 :: 64 word) < 2 ^ 31
   \<and> (\<exists>reply s'.
         AddNetwork (fake [Some ''10.0.0.0/16''] True [''192.168.0.0/16''])
           \<lparr>AddNetworkRequest.K8S_POD_NAME = ''pod-a'', K8S_POD_NAMESPACE = ''ns1'',
            K8S_POD_INFRA_CONTAINER_ID = ''c1'', Netns = ''/proc/42/ns/net'', IfName = ''eth0''\<rparr>
           (fresh [])
         = Inr (Inr reply, s')
       \<and> \<not> AddNetworkReply.Success reply
       \<and> AddNetworkReply.IPv4Addr reply = []
       \<and> sint (AddNetworkReply.DeviceNumber reply) = 0
       \<and> AddNetworkReply.UseExternalSNAT reply
       \<and> VPCcidrs reply = [''10.0.0.0/16''])"
proof -
  let ?c = "fake [Some ''10.0.0.0/16''] True [''192.168.0.0/16'']"
  have h1: "AssignPodIPv4Address ?c
     \<lparr>Name = ''pod-a'', Namespace = ''ns1'', Container = ''c1''\<rparr> (world (fresh []))
     = (('''', 0, Some (ErrOther ''no available IP addresses'')), [])"
    by (simp add: fake_def fakeAssign_def fresh_def)
  have h2: "GetVPCIPv4CIDRs ?c [] = ([Some ''10.0.0.0/16''], [])"
    by (simp add: fake_def)
  have h3: "None \<notin> set [Some ''10.0.0.0/16'']"
    by simp
  have h4: "collaborators.UseExternalSNAT ?c [] = (True, [])"
    by (simp add: fake_def)
  have h5: "GetExcludeSNATCIDRs ?c [] = ([''192.168.0.0/16''], [])"
    by (simp add: fake_def)
  have h6: "- (2 ^ 31) \<le> sint (0 :: 64 word) \<and> sint (0 :: 64 word) < 2 ^ 31"
    by simp
  show ?thesis
    using h1 h3 h6 AddNetwork_reply [OF h1 h2 h3 h4 h5,
        where netns = "''/proc/42/ns/net''" and ifname = "''eth0''"]
    by auto
qed

subsection \<open>Counters\<close>

text \<open>
  Claim C5. A call of \<^verbatim>\<open>AddNetwork\<close> that returns increments \<^verbatim>\<open>addIPCnt\<close> by exactly one,
  whatever assign returned; a call of \<^verbatim>\<open>DelNetwork\<close> increments \<^verbatim>\<open>delIPCnt\<close> by exactly
  one at the label equal to the request's reason, and at no other label, whatever
  unassign returned. Neither handler touches the other's counter.
\<close>

theorem counters_incremented_once:
  fixes c :: "'w collaborators"
  assumes "AssignPodIPv4Address c \<lparr>Name = name, Namespace = ns, Container = cid\<rparr> (world s)
           = (r, w1)"
    and "GetVPCIPv4CIDRs c w1 = (base, w2)"
    and "None \<notin> set base"
  shows "(\<exists>reply s'.
           AddNetwork c
             \<lparr>AddNetworkRequest.K8S_POD_NAME = name, K8S_POD_NAMESPACE = ns,
              K8S_POD_INFRA_CONTAINER_ID = cid, Netns = netns, IfName = ifname\<rparr> s
           = Inr (Inr reply, s')
         \<and> addIPCnt s' = addIPCnt s + 1 \<and> delIPCnt s' = delIPCnt s)
       \<and> delIPCnt (snd (DelNetwork c
             \<lparr>DelNetworkRequest.K8S_POD_NAME = name, K8S_POD_NAMESPACE = ns,
              K8S_POD_INFRA_CONTAINER_ID = cid, IPv4Addr = ip, Reason = reason\<rparr> s))
         = (delIPCnt s)(reason := delIPCnt s reason + 1)
       \<and> addIPCnt (snd (DelNetwork c
             \<lparr>DelNetworkRequest.K8S_POD_NAME = name, K8S_POD_NAMESPACE = ns,
              K8S_POD_INFRA_CONTAINER_ID = cid, IPv4Addr = ip, Reason = reason\<rparr> s))
         = addIPCnt s"
  using assms
  by (auto simp add: AddNetwork_def DelNetwork_def appendVPCcidrs_Inr Inc_def IncWith_def
      split: prod.splits)

text \<open>A failed attach and a detach of an unknown pod are both counted.\<close>

theorem counters_incremented_once_witness:
  "AssignPodIPv4Address (fake [Some ''10.0.0.0/16''] False [])
     \<lparr>Name = ''pod-a'', Namespace = ''ns1'', Container = ''c1''\<rparr> (world (fresh []))
     = (('''', 0, Some (ErrOther ''no available IP addresses'')), [])
   \<and> None \<notin> set [Some ''10.0.0.0/16'']
   \<and> (\<exists>reply s'.
         AddNetwork (fake [Some ''10.0.0.0/16''] False [])
           \<lparr>AddNetworkRequest.K8S_POD_NAME = ''pod-a'', K8S_POD_NAMESPACE = ''ns1'',
            K8S_POD_INFRA_CONTAINER_ID = ''c1'', Netns = ''/proc/42/ns/net'', IfName = ''eth0''\<rparr>
           (fresh [])
         = Inr (Inr reply, s')
       \<and> \<not> AddNetworkReply.Success reply \<and> addIPCnt s' = 1)
   \<and> delIPCnt (snd (DelNetwork (fake [Some ''10.0.0.0/16''] False [])
           \<lparr>DelNetworkRequest.K8S_POD_NAME = ''pod-a'', K8S_POD_NAMESPACE = ''ns1'',
            K8S_POD_INFRA_CONTAINER_ID = ''c1'', IPv4Addr = ''10.0.1.5'', Reason = ''PodDeleted''\<rparr>
           (fresh []))) ''PodDeleted'' = 1"
proof -
  let ?c = "fake [Some ''10.0.0.0/16''] False []"
  have h1: "AssignPodIPv4Address ?c
     \<lparr>Name = ''pod-a'', Namespace = ''ns1'', Container = ''c1''\<rparr> (world (fresh []))
     = (('''', 0, Some (ErrOther ''no available IP addresses'')), [])"
    by (simp add: fake_def fakeAssign_def fresh_def)
  have h2: "GetVPCIPv4CIDRs ?c [] = ([Some ''10.0.0.0/16''], [])"
    by (simp add: fake_def)
  have h3: "None \<notin> set [Some ''10.0.0.0/16'']"
    by simp
  have a: "AddNetwork ?c
           \<lparr>AddNetworkRequest.K8S_POD_NAME = ''pod-a'', K8S_POD_NAMESPACE = ''ns1'',
            K8S_POD_INFRA_CONTAINER_ID = ''c1'', Netns = ''/proc/42/ns/net'', IfName = ''eth0''\<rparr>
           (fresh [])
         = Inr (Inr \<lparr>AddNetworkReply.Success = False, IPv4Addr = '''', IPv4Subnet = '''',
                     DeviceNumber = 0, UseExternalSNAT = False,
                     VPCcidrs = [''10.0.0.0/16'']\<rparr>,
                \<lparr>world = [], terminating = False, addIPCnt = 1, delIPCnt = (\<lambda>label. 0)\<rparr>)"
    by (simp add: AddNetwork_def fake_def fakeAssign_def fresh_def Inc_def)
  show ?thesis
    using h1 h3 a counters_incremented_once [OF h1 h2 h3,
        where netns = "''/proc/42/ns/net''" and ifname = "''eth0''"
          and ip = "''10.0.1.5''" and reason = "''PodDeleted''"]
    by (auto simp add: fresh_def)
qed
subsection \<open>A concrete attach\<close>

text \<open>
  Claim C8. Attach for pod-a in ns1 with container c1 and interface eth0, the store
  returning address 10.0.1.5 and device 1 without error, the base range 10.0.0.0/16,
  SNAT not external and the exclusion range 192.168.0.0/16: the reply has success true,
  that address, device number 1, the external-SNAT flag false and both ranges in this
  order (and an empty subnet).
\<close>

theorem AddNetwork_scenario:
  fixes c :: "'w collaborators"
  assumes "AssignPodIPv4Address c \<lparr>Name = ''pod-a'', Namespace = ''ns1'', Container = ''c1''\<rparr>
             (world s) = ((''10.0.1.5'', 1, None), w1)"
    and "GetVPCIPv4CIDRs c w1 = ([Some ''10.0.0.0/16''], w2)"
    and "collaborators.UseExternalSNAT c w2 = (False, w3)"
    and "GetExcludeSNATCIDRs c w3 = ([''192.168.0.0/16''], w4)"
  shows "\<exists>s'. AddNetwork c
            \<lparr>AddNetworkRequest.K8S_POD_NAME = ''pod-a'', K8S_POD_NAMESPACE = ''ns1'',
             K8S_POD_INFRA_CONTAINER_ID = ''c1'', Netns = netns, IfName = ''eth0''\<rparr> s
          = Inr (Inr \<lparr>AddNetworkReply.Success = True, IPv4Addr = ''10.0.1.5'', IPv4Subnet = '''',
                      DeviceNumber = 1, UseExternalSNAT = False,
                      VPCcidrs = [''10.0.0.0/16'', ''192.168.0.0/16'']\<rparr>, s')"
  using AddNetwork_returns [of c "\<lparr>AddNetworkRequest.K8S_POD_NAME = ''pod-a'',
             K8S_POD_NAMESPACE = ''ns1'', K8S_POD_INFRA_CONTAINER_ID = ''c1'', Netns = netns,
             IfName = ''eth0''\<rparr>" s "''10.0.1.5''" 1 None w1 "[Some ''10.0.0.0/16'']" w2 False w3
             "[''192.168.0.0/16'']" w4] assms
  by simp

text \<open>The scenario on the test double, with pod-a already assigned.\<close>

theorem AddNetwork_scenario_witness:
  "AssignPodIPv4Address (fake [Some ''10.0.0.0/16''] False [''192.168.0.0/16''])
     \<lparr>Name = ''pod-a'', Namespace = ''ns1'', Container = ''c1''\<rparr>
     (world (fresh [(\<lparr>Name = ''pod-a'', Namespace = ''ns1'', Container = ''c1''\<rparr>, ''10.0.1.5'', 1)]))
     = ((''10.0.1.5'', 1, None),
        [(\<lparr>Name = ''pod-a'', Namespace = ''ns1'', Container = ''c1''\<rparr>, ''10.0.1.5'', 1)])
   \<and> (\<exists>s'. AddNetwork (fake [Some ''10.0.0.0/16''] False [''192.168.0.0/16''])
            \<lparr>AddNetworkRequest.K8S_POD_NAME = ''pod-a'', K8S_POD_NAMESPACE = ''ns1'',
             K8S_POD_INFRA_CONTAINER_ID = ''c1'', Netns = ''/proc/42/ns/net'', IfName = ''eth0''\<rparr>
            (fresh [(\<lparr>Name = ''pod-a'', Namespace = ''ns1'', Container = ''c1''\<rparr>, ''10.0.1.5'', 1)])
          = Inr (Inr \<lparr>AddNetworkReply.Success = True, IPv4Addr = ''10.0.1.5'', IPv4Subnet = '''',
                      DeviceNumber = 1, UseExternalSNAT = False,
                      VPCcidrs = [''10.0.0.0/16'', ''192.168.0.0/16'']\<rparr>, s'))"
proof -
  let ?c = "fake [Some ''10.0.0.0/16''] False [''192.168.0.0/16'']"
  let ?w = "[(\<lparr>Name = ''pod-a'', Namespace = ''ns1'', Container = ''c1''\<rparr>, ''10.0.1.5'', 1 :: 64 word)]"
  have h1: "AssignPodIPv4Address ?c \<lparr>Name = ''pod-a'', Namespace = ''ns1'', Container = ''c1''\<rparr>
     (world (fresh ?w)) = ((''10.0.1.5'', 1, None), ?w)"
    by (simp add: fake_def fakeAssign_def fresh_def)
  have h2: "GetVPCIPv4CIDRs ?c ?w = ([Some ''10.0.0.0/16''], ?w)"
    by (simp add: fake_def)
  have h3: "collaborators.UseExternalSNAT ?c ?w = (False, ?w)"
    by (simp add: fake_def)
  have h4: "GetExcludeSNATCIDRs ?c ?w = ([''192.168.0.0/16''], ?w)"
    by (simp add: fake_def)
  show ?thesis
    using h1 AddNetwork_scenario [OF h1 h2 h3 h4, where netns = "''/proc/42/ns/net''"]
    by simp
qed

subsection \<open>What every attach asks and fills in\<close>

text \<open>
  Claim C10. The reply of \<^verbatim>\<open>AddNetwork\<close> always has an empty subnet, and it carries the
  sequence of ranges and the external-SNAT flag also when assign failed: the handler asks
  the range provider and the SNAT policy on every call, whatever assign returned, as the
  log of the recording collaborators shows.
\<close>

theorem AddNetwork_unconditional:
  fixes c :: "'w collaborators"
  assumes "AssignPodIPv4Address c \<lparr>Name = name, Namespace = ns, Container = cid\<rparr> (world s)
           = ((addr, dev, err), w1)"
    and "GetVPCIPv4CIDRs c w1 = (base, w2)"
    and "None \<notin> set base"
    and "collaborators.UseExternalSNAT c w2 = (ext, w3)"
    and "GetExcludeSNATCIDRs c w3 = (excl, w4)"
  shows "\<exists>reply s' s''.
          AddNetwork c
            \<lparr>AddNetworkRequest.K8S_POD_NAME = name, K8S_POD_NAMESPACE = ns,
             K8S_POD_INFRA_CONTAINER_ID = cid, Netns = netns, IfName = ifname\<rparr> s
          = Inr (Inr reply, s')
        \<and> IPv4Subnet reply = ''''
        \<and> AddNetworkReply.Success reply = (err = None)
        \<and> AddNetworkReply.UseExternalSNAT reply = ext
        \<and> VPCcidrs reply = map the base @ (if ext then [] else excl)
        \<and> AddNetwork (recording c)
            \<lparr>AddNetworkRequest.K8S_POD_NAME = name, K8S_POD_NAMESPACE = ns,
             K8S_POD_INFRA_CONTAINER_ID = cid, Netns = netns, IfName = ifname\<rparr> (observed s)
          = Inr (Inr reply, s'')
        \<and> calls s''
          = [CallAssign \<lparr>Name = name, Namespace = ns, Container = cid\<rparr>,
             CallGetVPCIPv4CIDRs, CallUseExternalSNAT]
            @ (if ext then [] else [CallGetExcludeSNATCIDRs])"
  using AddNetwork_returns [of c "\<lparr>AddNetworkRequest.K8S_POD_NAME = name, K8S_POD_NAMESPACE = ns,
             K8S_POD_INFRA_CONTAINER_ID = cid, Netns = netns, IfName = ifname\<rparr>" s addr dev err w1 base w2 ext w3 excl w4] assms
  by (simp add: AddNetwork_def recording_simps observed_def calls_def appendVPCcidrs_Inr
      appendExcludeSNATCIDRs_eq)

text \<open>An attach that fails for lack of addresses.\<close>

theorem AddNetwork_unconditional_witness:
  "AssignPodIPv4Address (fake [Some ''10.0.0.0/16''] False [''192.168.0.0/16''])
     \<lparr>Name = ''pod-a'', Namespace = ''ns1'', Container = ''c1''\<rparr> (world (fresh []))
     = (('''', 0, Some (ErrOther ''no available IP addresses'')), [])
   \<and> None \<notin> set [Some ''10.0.0.0/16'']
   \<and> (\<exists>reply s' s''.
         AddNetwork (fake [Some ''10.0.0.0/16''] False [''192.168.0.0/16''])
           \<lparr>AddNetworkRequest.K8S_POD_NAME = ''pod-a'', K8S_POD_NAMESPACE = ''ns1'',
            K8S_POD_INFRA_CONTAINER_ID = ''c1'', Netns = ''/proc/42/ns/net'', IfName = ''eth0''\<rparr>
           (fresh [])
         = Inr (Inr reply, s')
       \<and> \<not> AddNetworkReply.Success reply
       \<and> IPv4Subnet reply = ''''
       \<and> \<not> AddNetworkReply.UseExternalSNAT reply
       \<and> VPCcidrs reply = [''10.0.0.0/16'', ''192.168.0.0/16'']
       \<and> AddNetwork (recording (fake [Some ''10.0.0.0/16''] False [''192.168.0.0/16'']))
           \<lparr>AddNetworkRequest.K8S_POD_NAME = ''pod-a'', K8S_POD_NAMESPACE = ''ns1'',
            K8S_POD_INFRA_CONTAINER_ID = ''c1'', Netns = ''/proc/42/ns/net'', IfName = ''eth0''\<rparr>
           (observed (fresh []))
         = Inr (Inr reply, s'')
       \<and> calls s''
         = [CallAssign \<lparr>Name = ''pod-a'', Namespace = ''ns1'', Container = ''c1''\<rparr>,
            CallGetVPCIPv4CIDRs, CallUseExternalSNAT, CallGetExcludeSNATCIDRs])"
proof -
  let ?c = "fake [Some ''10.0.0.0/16''] False [''192.168.0.0/16'']"
  have h1: "AssignPodIPv4Address ?c
     \<lparr>Name = ''pod-a'', Namespace = ''ns1'', Container = ''c1''\<rparr> (world (fresh []))
     = (('''', 0, Some (ErrOther ''no available IP addresses'')), [])"
    by (simp add: fake_def fakeAssign_def fresh_def)
  have h2: "GetVPCIPv4CIDRs ?c [] = ([Some ''10.0.0.0/16''], [])"
    by (simp add: fake_def)
  have h3: "None \<notin> set [Some ''10.0.0.0/16'']"
    by simp
  have h4: "collaborators.UseExternalSNAT ?c [] = (False, [])"
    by (simp add: fake_def)
  have h5: "GetExcludeSNATCIDRs ?c [] = ([''192.168.0.0/16''], [])"
    by (simp add: fake_def)
  show ?thesis
    using h1 h3 AddNetwork_unconditional [OF h1 h2 h3 h4 h5,
        where netns = "''/proc/42/ns/net''" and ifname = "''eth0''"]
    by auto
qed

section \<open>Bring-up\<close>

text \<open>
  Claim C9. \<^verbatim>\<open>RunRPCHandler\<close> returns an error exactly when \<^verbatim>\<open>net.Listen\<close> on
  tcp 127.0.0.1:50051 fails or \<^verbatim>\<open>Serve\<close>, called on the server with the three services
  registered and on the listener just bound, returns an error. The error returned is the
  failure wrapped with the function's message; when \<^verbatim>\<open>Serve\<close> returns nil the function
  returns nil, and when \<^verbatim>\<open>Serve\<close> does not return neither does the function. The two
  handlers never return a non-nil error.
\<close>

theorem RunRPCHandler_error_iff:
  fixes t :: "'lis transport" and c :: "'w collaborators"
  shows "((\<exists>e. returned (RunRPCHandler t) = Some (Some e))
          = ((\<exists>e. Listen t ''tcp'' ''127.0.0.1:50051'' = Inl e)
             \<or> (\<exists>lis e. Listen t ''tcp'' ''127.0.0.1:50051'' = Inr lis
                  \<and> Serve t \<lparr>registered = [CNIBackendServer, HealthServer, ReflectionServer],
                              servingStatus = [(''grpc.health.v1.aws-node'', SERVING)]\<rparr> lis
                    = Some (Some e))))
       \<and> (Listen t ''tcp'' ''127.0.0.1:50051'' = Inl e1
            \<longrightarrow> returned (RunRPCHandler t)
              = Some (Some (Wrap e1 ''ipamd: failed to listen to gRPC port'')))
       \<and> (Listen t ''tcp'' ''127.0.0.1:50051'' = Inr lis
              \<and> Serve t \<lparr>registered = [CNIBackendServer, HealthServer, ReflectionServer],
                          servingStatus = [(''grpc.health.v1.aws-node'', SERVING)]\<rparr> lis
                = Some (Some e2)
            \<longrightarrow> returned (RunRPCHandler t)
              = Some (Some (Wrap e2 ''ipamd: failed to start server on gPRC port'')))
       \<and> (Listen t ''tcp'' ''127.0.0.1:50051'' = Inr lis
              \<and> Serve t \<lparr>registered = [CNIBackendServer, HealthServer, ReflectionServer],
                          servingStatus = [(''grpc.health.v1.aws-node'', SERVING)]\<rparr> lis
                = Some None
            \<longrightarrow> returned (RunRPCHandler t) = Some None)
       \<and> (Listen t ''tcp'' ''127.0.0.1:50051'' = Inr lis
              \<and> Serve t \<lparr>registered = [CNIBackendServer, HealthServer, ReflectionServer],
                          servingStatus = [(''grpc.health.v1.aws-node'', SERVING)]\<rparr> lis
                = None
            \<longrightarrow> returned (RunRPCHandler t) = None)
       \<and> (\<forall>e s'. AddNetwork c areq s \<noteq> Inr (Inl e, s'))
       \<and> (\<forall>e. fst (DelNetwork c dreq s) \<noteq> Inl e)"
proof -
  let ?srv = "\<lparr>registered = [CNIBackendServer, HealthServer, ReflectionServer],
               servingStatus = [(''grpc.health.v1.aws-node'', SERVING)]\<rparr>"
  let ?lst = "Listen t ''tcp'' ''127.0.0.1:50051''"
  have bind: "?lst = Inl e \<Longrightarrow> returned (RunRPCHandler t)
      = Some (Some (Wrap e ''ipamd: failed to listen to gRPC port''))" for e
    by (simp add: RunRPCHandler_def ipamdgRPCaddress_def)
  have serve: "?lst = Inr l \<Longrightarrow> returned (RunRPCHandler t)
      = (case Serve t ?srv l of
           None \<Rightarrow> None
         | Some None \<Rightarrow> Some None
         | Some (Some e) \<Rightarrow> Some (Some (Wrap e ''ipamd: failed to start server on gPRC port'')))" for l
    by (simp add: RunRPCHandler_def ipamdgRPCaddress_def Let_def split: option.splits)
  have r: "(\<exists>e. returned (RunRPCHandler t) = Some (Some e))
          = ((\<exists>e. ?lst = Inl e) \<or> (\<exists>lis e. ?lst = Inr lis \<and> Serve t ?srv lis = Some (Some e)))"
  proof (cases ?lst)
    case (Inl e)
    then show ?thesis using bind [OF Inl] by simp
  next
    case (Inr l)
    then show ?thesis using serve [OF Inr] by (auto split: option.splits)
  qed
  have a: "\<forall>e s'. AddNetwork c areq s \<noteq> Inr (Inl e, s')"
    by (auto simp add: AddNetwork_def Let_def split: prod.splits sum.splits if_splits)
  have d: "\<forall>e. fst (DelNetwork c dreq s) \<noteq> Inl e"
    by (simp add: DelNetwork_def Let_def split: prod.splits)
  show ?thesis
    using r bind [of e1] serve [of lis] a d by (simp split: option.splits)
qed

text \<open>A bind failure, and a failure of serving on the server as built.\<close>

theorem RunRPCHandler_error_iff_witness:
  "Listen \<lparr>Listen = (\<lambda>network address. Inl (ErrOther ''address already in use'')),
           Serve = (\<lambda>srv (lis :: unit). None)\<rparr> ''tcp'' ''127.0.0.1:50051''
     = Inl (ErrOther ''address already in use'')
   \<and> returned (RunRPCHandler
        \<lparr>Listen = (\<lambda>network address. Inl (ErrOther ''address already in use'')),
         Serve = (\<lambda>srv (lis :: unit). None)\<rparr>)
     = Some (Some (Wrap (ErrOther ''address already in use'')
                     ''ipamd: failed to listen to gRPC port''))
   \<and> Listen \<lparr>Listen = (\<lambda>network address. Inr ()),
             Serve = (\<lambda>srv lis.
               if registered srv = [CNIBackendServer, HealthServer, ReflectionServer]
               then Some (Some (ErrOther ''use of closed network connection'')) else None)\<rparr>
        ''tcp'' ''127.0.0.1:50051''
     = Inr ()
   \<and> returned (RunRPCHandler
        \<lparr>Listen = (\<lambda>network address. Inr ()),
         Serve = (\<lambda>srv lis.
           if registered srv = [CNIBackendServer, HealthServer, ReflectionServer]
           then Some (Some (ErrOther ''use of closed network connection'')) else None)\<rparr>)
     = Some (Some (Wrap (ErrOther ''use of closed network connection'')
                     ''ipamd: failed to start server on gPRC port''))"
proof -
  let ?t1 = "\<lparr>Listen = (\<lambda>network address. Inl (ErrOther ''address already in use'')),
              Serve = (\<lambda>srv (lis :: unit). None)\<rparr>"
  let ?t2 = "\<lparr>Listen = (\<lambda>network address. Inr ()),
              Serve = (\<lambda>srv lis.
                if registered srv = [CNIBackendServer, HealthServer, ReflectionServer]
                then Some (Some (ErrOther ''use of closed network connection'')) else None)\<rparr>"
  have b: "returned (RunRPCHandler ?t1)
     = Some (Some (Wrap (ErrOther ''address already in use'')
                     ''ipamd: failed to listen to gRPC port''))"
    using RunRPCHandler_error_iff [where t = ?t1 and ?e1.0 = "ErrOther ''address already in use''"
        and c = "fake [] False []"]
    by simp
  have v: "returned (RunRPCHandler ?t2)
     = Some (Some (Wrap (ErrOther ''use of closed network connection'')
                     ''ipamd: failed to start server on gPRC port''))"
    using RunRPCHandler_error_iff [where t = ?t2 and lis = "()"
        and ?e2.0 = "ErrOther ''use of closed network connection''" and c = "fake [] False []"]
    by simp
  show ?thesis using b v by simp
qed

section \<open>The shutdown listener\<close>

subsection \<open>Invariants of a run\<close>



lemma step_grpcServer: "grpcServer (step c e p) = grpcServer p"
  by (simp add: step_def shutdownListener_def
      split: event.splits listener.splits list.splits sum.splits prod.splits)







lemma run_grpcServer: "grpcServer (run c es p) = grpcServer p"
  by (induction es arbitrary: p) (simp_all add: step_grpcServer)













subsection \<open>The flag is set once\<close>



subsection \<open>Nothing else is changed\<close>

text \<open>
  Claim C7. A step of the goroutine leaves the gRPC server, the state of the
  collaborators and the counters as they are; the step of the transition changes the
  flag to true and the position of the goroutine, and nothing else. Delivering a signal
  changes neither the server nor the context. The handlers do not read the flag: a
  call gives the same reply and the same changes whether the flag is set or not.
\<close>

theorem shutdownListener_frame:
  fixes c :: "'w collaborators" and p :: "('w, 'srv) process"
  shows "grpcServer (step c Listener p) = grpcServer p
       \<and> world (ctx (step c Listener p)) = world (ctx p)
       \<and> addIPCnt (ctx (step c Listener p)) = addIPCnt (ctx p)
       \<and> delIPCnt (ctx (step c Listener p)) = delIPCnt (ctx p)
       \<and> exited (step c Listener p) = exited p
       \<and> (pc p = AtSetTerminating \<and> \<not> exited p
            \<longrightarrow> step c Listener p = p\<lparr>ctx := (ctx p)\<lparr>terminating := True\<rparr>, pc := Returned\<rparr>)
       \<and> grpcServer (step c (Deliver sg) p) = grpcServer p
       \<and> ctx (step c (Deliver sg) p) = ctx p
       \<and> AddNetwork c areq (s\<lparr>terminating := b\<rparr>)
           = map_sum id (\<lambda>(r, s'). (r, s'\<lparr>terminating := b\<rparr>)) (AddNetwork c areq s)
       \<and> DelNetwork c dreq (s\<lparr>terminating := b\<rparr>)
           = (fst (DelNetwork c dreq s), (snd (DelNetwork c dreq s))\<lparr>terminating := b\<rparr>)"
proof -
  have l: "grpcServer (step c Listener p) = grpcServer p
       \<and> world (ctx (step c Listener p)) = world (ctx p)
       \<and> addIPCnt (ctx (step c Listener p)) = addIPCnt (ctx p)
       \<and> delIPCnt (ctx (step c Listener p)) = delIPCnt (ctx p)
       \<and> exited (step c Listener p) = exited p
       \<and> (pc p = AtSetTerminating \<and> \<not> exited p
            \<longrightarrow> step c Listener p = p\<lparr>ctx := (ctx p)\<lparr>terminating := True\<rparr>, pc := Returned\<rparr>)"
    by (simp add: step_def shutdownListener_def setTerminating_def
        split: listener.splits list.splits)
  have d: "grpcServer (step c (Deliver sg) p) = grpcServer p \<and> ctx (step c (Deliver sg) p) = ctx p"
    by (simp add: step_def)
  have a: "AddNetwork c areq (s\<lparr>terminating := b\<rparr>)
           = map_sum id (\<lambda>(r, s'). (r, s'\<lparr>terminating := b\<rparr>)) (AddNetwork c areq s)"
    by (simp add: AddNetwork_def Let_def split: prod.splits sum.splits)
  have e: "DelNetwork c dreq (s\<lparr>terminating := b\<rparr>)
           = (fst (DelNetwork c dreq s), (snd (DelNetwork c dreq s))\<lparr>terminating := b\<rparr>)"
    by (simp add: DelNetwork_def Let_def split: prod.splits)
  show ?thesis using l d a e by blast
qed

text \<open>The transition in a run that has just received SIGTERM.\<close>

theorem shutdownListener_frame_witness:
  "pc (run (fake [] False []) [Listener, Listener, Listener, Deliver SIGTERM, Listener]
         (spawn (fresh []) ''server'')) = AtSetTerminating
   \<and> \<not> exited (run (fake [] False []) [Listener, Listener, Listener, Deliver SIGTERM, Listener]
         (spawn (fresh []) ''server''))
   \<and> step (fake [] False []) Listener
        (run (fake [] False []) [Listener, Listener, Listener, Deliver SIGTERM, Listener]
           (spawn (fresh []) ''server''))
      = \<lparr>ctx = \<lparr>world = [], terminating = True, addIPCnt = 0, delIPCnt = (\<lambda>label. 0)\<rparr>,
         grpcServer = ''server'', pc = Returned, sig = [], notified = {SIGINT, SIGTERM},
         exited = False\<rparr>"
proof -
  let ?p = "run (fake [] False []) [Listener, Listener, Listener, Deliver SIGTERM, Listener]
         (spawn (fresh []) ''server'')"
  have v: "?p = \<lparr>ctx = \<lparr>world = [], terminating = False, addIPCnt = 0, delIPCnt = (\<lambda>label. 0)\<rparr>,
         grpcServer = ''server'', pc = AtSetTerminating, sig = [], notified = {SIGINT, SIGTERM},
         exited = False\<rparr>"
    by (auto simp add: step_def shutdownListener_def sigCap_def spawn_def fresh_def)
  have f: "pc ?p = AtSetTerminating \<and> \<not> exited ?p
      \<longrightarrow> step (fake [] False []) Listener ?p
        = ?p\<lparr>ctx := (ctx ?p)\<lparr>terminating := True\<rparr>, pc := Returned\<rparr>"
    using shutdownListener_frame [where c = "fake [] False []" and p = ?p] by (rule conjE) blast
  show ?thesis
    using f unfolding v by simp
qed

end
